theory Spec2Isabelle
  imports Main "HOL-Library.Sublist"
begin

section \<open>Python values used by the program\<close>

text \<open>
  Python \<open>str\<close> values are modelled as \<open>string\<close>; a \<open>char\<close> stands for a code point
  below 256. \<open>str_int\<close> is \<open>str(n)\<close> for a Python \<open>int\<close>, which is what an f-string
  field \<open>{n}\<close> renders: decimal digits, with a leading minus sign for a negative number.
\<close>

definition digit_char :: "nat \<Rightarrow> char" where
  "digit_char d = ''0123456789'' ! d"

fun str_nat :: "nat \<Rightarrow> string" where
  "str_nat n = (if n < 10 then [digit_char n] else str_nat (n div 10) @ [digit_char (n mod 10)])"

declare str_nat.simps [simp del]

definition str_int :: "int \<Rightarrow> string" where
  "str_int i = (if i < 0 then CHR ''-'' # str_nat (nat (- i)) else str_nat (nat i))"

text \<open>\<open>sep.join(xs)\<close> of Python.\<close>

fun join :: "string \<Rightarrow> string list \<Rightarrow> string" where
  "join sep [] = []"
| "join sep [x] = x"
| "join sep (x # y # ys) = x @ sep @ join sep (y # ys)"

section \<open>The search form and the cache key (\<open>main\<close>, lines 173-215)\<close>

text \<open>
  The values \<open>main\<close> reads from its widgets when the script runs. \<open>st.multiselect\<close>
  returns a list, so the selected languages and providers are lists. \<open>in_season\<close> and
  \<open>in_episode\<close> are the variables \<open>season\<close> and \<open>episode\<close>, which \<open>main\<close> binds and reads
  only when \<open>media_type == "episode"\<close>.
\<close>

record form =
  in_media_type :: string
  in_title :: string
  in_year :: int
  in_season :: int
  in_episode :: int
  in_selected_langs :: "string list"
  in_selected_providers :: "string list"

definition cache_key :: "form \<Rightarrow> string" where
  "cache_key f =
     (let cache_key0 = in_title f @ ''_'' @ in_media_type f @ ''_'' @ str_int (in_year f) @ ''_''
                      @ join ''_'' (in_selected_langs f) @ ''_'' @ join ''_'' (in_selected_providers f)
      in if in_media_type f = ''episode''
         then cache_key0 @ ''_'' @ str_int (in_season f) @ ''_'' @ str_int (in_episode f)
         else cache_key0)"

section \<open>The outside world\<close>

text \<open>
  A raised Python exception; the string is \<open>str(e)\<close>, the message the handlers print.
\<close>

datatype exn = Exception string

fun str_exn :: "exn \<Rightarrow> string" where
  "str_exn (Exception msg) = msg"

text \<open>\<open>babelfish.Language\<close>, built from its three-letter code and read through \<open>alpha3\<close>.\<close>

datatype Language = Language (alpha3: string)

text \<open>
  A \<open>subliminal\<close> video object. \<open>scan_video\<close> fills it from the file name; the search function
  then assigns the attributes \<open>title\<close>, \<open>year\<close>, \<open>series\<close>, \<open>season\<close> and \<open>episode\<close>.
\<close>

record video =
  video_name :: string
  video_title :: "string option"
  video_year :: "int option"
  video_series :: "string option"
  video_season :: "int option"
  video_episode :: "int option"

text \<open>A subtitle match handed back by the provider capability.\<close>

record subtitle =
  language :: Language
  provider_name :: string
  subtitle_id :: string
  content :: string
  hearing_impaired :: "bool option"

type_synonym provider_configs = "(string \<times> (string \<times> string option) list) list"

text \<open>
  What \<open>openai.chat.completions.create\<close> is called with, and what it hands back. A JSON
  reply is parsed into a \<open>ChatCompletion\<close> object whose text is
  \<open>choices[0].message.content\<close> (the field the commented-out line 139 reads); a reply that is
  not JSON is handed back as a plain \<open>str\<close>.
\<close>

record chat_request =
  chat_base_url :: string
  chat_api_key :: string
  chat_model :: string
  chat_system :: string
  chat_user :: string
  chat_temperature_tenths :: nat
  chat_max_tokens :: nat

datatype response = ChatCompletion "string list" | PlainText string

text \<open>The calls the program makes to its libraries, in the order it makes them.\<close>

datatype call =
    Mkdtemp
  | Open_wb string
  | Scan_video string
  | Download_best_subtitles "video list" "Language set" "string list" provider_configs
  | Rmtree string
  | Chat_completions_create chat_request

text \<open>
  The state outside the program: the directories and regular files that exist (paths as
  written, so the model of the file system is exact for paths without \<open>.\<close> and \<open>..\<close> parts
  and without symbolic links), the library calls made so far, and the messages shown with
  \<open>st.error\<close>. The \<open>logging\<close> calls are not modelled.
\<close>

record world =
  dirs :: "string list"
  files :: "string list"
  calls :: "call list"
  st_errors :: "string list"

text \<open>
  How the libraries answer. Each answer may depend on the world, which holds the history of
  calls, so that a capability can fail on one call and succeed on the next.
  The last four fields are \<open>os.getenv\<close>'s values (lines 47-50): \<open>None\<close> when the variable is
  unset; \<open>OPENROUTER_MODEL\<close> has a default.
\<close>

record env =
  mkdtemp :: "world \<Rightarrow> exn + string"
  open_wb :: "world \<Rightarrow> string \<Rightarrow> exn option"
  scan_video :: "world \<Rightarrow> string \<Rightarrow> exn + video"
  Language_error :: "string \<Rightarrow> exn option"
  download_best_subtitles ::
    "world \<Rightarrow> video list \<Rightarrow> Language set \<Rightarrow> string list \<Rightarrow> provider_configs
       \<Rightarrow> exn + (video \<rightharpoonup> subtitle list)"
  rmtree_error :: "world \<Rightarrow> string \<Rightarrow> exn option"
  chat_completions_create :: "world \<Rightarrow> chat_request \<Rightarrow> exn + response"
  OPEN_SUBTITLES_USERNAME :: "string option"
  OPEN_SUBTITLES_PASSWORD :: "string option"
  OPENROUTER_API_KEY :: "string option"
  OPENROUTER_MODEL :: string

definition called :: "call \<Rightarrow> world \<Rightarrow> world" where
  "called c w = w\<lparr>calls := calls w @ [c]\<rparr>"

section \<open>\<open>search_and_download_subtitles\<close> (lines 53-104)\<close>

text \<open>\<open>os.path.join(a, b)\<close> on POSIX: an absolute \<open>b\<close> discards \<open>a\<close>.\<close>

definition os_path_join :: "string \<Rightarrow> string \<Rightarrow> string" where
  "os_path_join a b =
     (if take 1 b = ''/'' then b
      else if a = [] \<or> drop (length a - 1) a = ''/'' then a @ b
      else a @ ''/'' @ b)"

text \<open>\<open>shutil.rmtree(d)\<close>: the directory and everything below it is gone.\<close>

definition rmtree :: "string \<Rightarrow> world \<Rightarrow> world" where
  "rmtree d w =
     w\<lparr>dirs := filter (\<lambda>p. p \<noteq> d \<and> \<not> prefix (d @ ''/'') p) (dirs w),
       files := filter (\<lambda>p. \<not> prefix (d @ ''/'') p) (files w)\<rparr>"

text \<open>
  \<open>{Language(l) for l in languages}\<close>: the constructor raises on a code it does not know,
  and the first such code ends the comprehension.
\<close>

fun make_languages :: "(string \<Rightarrow> exn option) \<Rightarrow> string list \<Rightarrow> exn + Language list" where
  "make_languages err [] = Inr []"
| "make_languages err (l # ls) =
     (case err l of
        Some e \<Rightarrow> Inl e
      | None \<Rightarrow> (case make_languages err ls of
                   Inl e \<Rightarrow> Inl e
                 | Inr Ls \<Rightarrow> Inr (Language l # Ls)))"

text \<open>
  Lines 93-96: the loop \<open>for sub in ...: results[sub.language.alpha3] = sub\<close>, started from
  the empty dict.
\<close>

fun organize :: "(string \<rightharpoonup> subtitle) \<Rightarrow> subtitle list \<Rightarrow> (string \<rightharpoonup> subtitle)" where
  "organize results [] = results"
| "organize results (sub # subs) = organize (results(alpha3 (language sub) \<mapsto> sub)) subs"

text \<open>
  Lines 70-76: the metadata written into the scanned video. Season and episode are stored
  as they come, \<open>None\<close> included.
\<close>

definition set_metadata ::
  "string \<Rightarrow> int \<Rightarrow> string \<Rightarrow> int option \<Rightarrow> int option \<Rightarrow> video \<Rightarrow> video" where
  "set_metadata title year media_type season episode video0 =
     (let video = video0\<lparr>video_title := Some title, video_year := Some year\<rparr>
      in if media_type = ''episode''
         then video\<lparr>video_series := Some title, video_season := season, video_episode := episode\<rparr>
         else video)"

text \<open>\<open>provider_configs or {}\<close> and \<open>subtitles.get(video, [])\<close>.\<close>

definition or_empty :: "provider_configs option \<Rightarrow> provider_configs" where
  "or_empty provider_configs = (case provider_configs of None \<Rightarrow> [] | Some c \<Rightarrow> c)"

definition get_or_nil :: "(video \<rightharpoonup> subtitle list) \<Rightarrow> video \<Rightarrow> subtitle list" where
  "get_or_nil subtitles video = (case subtitles video of None \<Rightarrow> [] | Some subs \<Rightarrow> subs)"

text \<open>
  The body of the \<open>try\<close> block (lines 63-98). It ends with the results, or with the
  exception that left it; the \<open>except\<close> clause logs and re-raises that exception.
\<close>

definition search_body ::
  "env \<Rightarrow> string \<Rightarrow> int \<Rightarrow> string \<Rightarrow> string list \<Rightarrow> string list \<Rightarrow> int option \<Rightarrow> int option
     \<Rightarrow> provider_configs option \<Rightarrow> string \<Rightarrow> world \<Rightarrow> (exn + (string \<rightharpoonup> subtitle)) \<times> world" where
  "search_body env title year media_type languages providers_list season episode
       provider_configs dummy_path w =
     (case open_wb env w dummy_path of
        Some e \<Rightarrow> (Inl e, called (Open_wb dummy_path) w)
      | None \<Rightarrow>
          (let w1 = (called (Open_wb dummy_path) w)\<lparr>files := List.insert dummy_path (files w)\<rparr>
           in case scan_video env w1 dummy_path of
                Inl e \<Rightarrow> (Inl e, called (Scan_video dummy_path) w1)
              | Inr video0 \<Rightarrow>
                  (let w2 = called (Scan_video dummy_path) w1;
                       video = set_metadata title year media_type season episode video0
                   in case make_languages (Language_error env) languages of
                        Inl e \<Rightarrow> (Inl e, w2)
                      | Inr Ls \<Rightarrow>
                          (let language_set = set Ls;
                               w3 = called (Download_best_subtitles [video] language_set
                                              providers_list (or_empty provider_configs)) w2
                           in case download_best_subtitles env w2 [video] language_set
                                     providers_list (or_empty provider_configs) of
                                Inl e \<Rightarrow> (Inl e, w3)
                              | Inr subtitles \<Rightarrow>
                                  (Inr (organize Map.empty (get_or_nil subtitles video)), w3)))))"

text \<open>
  The whole function: \<open>mkdtemp\<close> before the \<open>try\<close>, then the body, then the \<open>finally\<close>
  clause, which runs \<open>shutil.rmtree(temp_dir)\<close> whether the body returned or raised. An
  exception raised by \<open>rmtree\<close> itself replaces the outcome of the body.
\<close>

definition search_and_download_subtitles ::
  "env \<Rightarrow> string \<Rightarrow> int \<Rightarrow> string \<Rightarrow> string list \<Rightarrow> string list \<Rightarrow> int option \<Rightarrow> int option
     \<Rightarrow> provider_configs option \<Rightarrow> world \<Rightarrow> (exn + (string \<rightharpoonup> subtitle)) \<times> world" where
  "search_and_download_subtitles env title year media_type languages providers_list season
       episode provider_configs w =
     (case mkdtemp env w of
        Inl e \<Rightarrow> (Inl e, called Mkdtemp w)
      | Inr temp_dir \<Rightarrow>
          (let w1 = (called Mkdtemp w)\<lparr>dirs := List.insert temp_dir (dirs w)\<rparr>;
               dummy_path = os_path_join temp_dir (title @ ''.mkv'')
           in case search_body env title year media_type languages providers_list season
                     episode provider_configs dummy_path w1 of
                (outcome, w2) \<Rightarrow>
                  (case rmtree_error env w2 temp_dir of
                     Some e \<Rightarrow> (Inl e, called (Rmtree temp_dir) w2)
                   | None \<Rightarrow> (outcome, called (Rmtree temp_dir) (rmtree temp_dir w2)))))"

section \<open>\<open>enhance_subtitles\<close> (lines 107-155)\<close>

text \<open>
  \<open>str.isspace\<close> on the code points below 256, and \<open>str.strip()\<close>, which removes the
  leading and the trailing whitespace.
\<close>

definition isspace :: "char \<Rightarrow> bool" where
  "isspace c =
     (let n = (of_char c :: nat)
      in (9 \<le> n \<and> n \<le> 13) \<or> (28 \<le> n \<and> n \<le> 32) \<or> n = 133 \<or> n = 160)"

definition strip :: "string \<Rightarrow> string" where
  "strip s = rev (dropWhile isspace (rev (dropWhile isspace s)))"

definition newline :: string where
  "newline = [CHR 0x0A]"

text \<open>The f-string of lines 118-125.\<close>

definition prompt :: "string \<Rightarrow> string" where
  "prompt sub_content =
     newline
     @ ''Enhance the following subtitle text to improve naturalness, fluency, and clarity while preserving the original meaning.''
     @ newline
     @ ''IMPORTANT: Return only the SRT-formatted subtitles exactly as requested (with timing codes and numbering) and do not include any extra explanation or text.''
     @ newline @ newline
     @ sub_content
     @ newline @ newline
     @ ''Provide the result in SRT format.''
     @ newline @ ''    ''"

definition chat_request_for :: "env \<Rightarrow> string \<Rightarrow> string \<Rightarrow> chat_request" where
  "chat_request_for env api_key sub_content =
     \<lparr>chat_base_url = ''https://openrouter.ai/api/v1'',
      chat_api_key = api_key,
      chat_model = OPENROUTER_MODEL env,
      chat_system = ''You are a professional subtitle translator and editor.'',
      chat_user = prompt sub_content,
      chat_temperature_tenths = 3,
      chat_max_tokens = 3000\<rparr>"

text \<open>
  Line 140, \<open>response.strip()\<close>: a \<open>str\<close> has the method; a \<open>ChatCompletion\<close> object has no
  attribute of that name, and the attribute lookup raises \<open>AttributeError\<close>.
\<close>

definition no_attribute_strip :: exn where
  "no_attribute_strip =
     Exception ([CHR 0x27] @ ''ChatCompletion'' @ [CHR 0x27] @ '' object has no attribute ''
                @ [CHR 0x27] @ ''strip'' @ [CHR 0x27])"

fun response_strip :: "response \<Rightarrow> exn + string" where
  "response_strip (PlainText s) = Inr (strip s)"
| "response_strip (ChatCompletion choices) = Inl no_attribute_strip"

definition st_error :: "string \<Rightarrow> world \<Rightarrow> world" where
  "st_error msg w = w\<lparr>st_errors := st_errors w @ [msg]\<rparr>"

definition missing_key_message :: string where
  "missing_key_message =
     ''Missing OpenAI API key. Please set the OPENROUTER_API_KEY environment variable.''"

text \<open>
  The function returns a \<open>str\<close>, or \<open>None\<close> after it has shown an error with \<open>st.error\<close>.
  \<open>not OPENROUTER_API_KEY\<close> holds for \<open>None\<close> and for the empty string. Both the call and
  \<open>response.strip()\<close> are inside the \<open>try\<close>, so the \<open>except\<close> clause handles an exception
  of either. The \<open>print\<close> of line 150 is not modelled.
\<close>

definition enhance_subtitles :: "env \<Rightarrow> string \<Rightarrow> world \<Rightarrow> string option \<times> world" where
  "enhance_subtitles env sub_content w =
     (case OPENROUTER_API_KEY env of
        None \<Rightarrow> (None, st_error missing_key_message w)
      | Some api_key \<Rightarrow>
          if api_key = [] then (None, st_error missing_key_message w)
          else
            (let request = chat_request_for env api_key sub_content;
                 w1 = called (Chat_completions_create request) w
             in case chat_completions_create env w request of
                  Inl e \<Rightarrow> (None, st_error (''AI Enhancement Error: '' @ str_exn e) w1)
                | Inr response \<Rightarrow>
                    (case response_strip response of
                       Inl e \<Rightarrow> (None, st_error (''AI Enhancement Error: '' @ str_exn e) w1)
                     | Inr enhanced_subtitles \<Rightarrow> (Some enhanced_subtitles, w1))))"

section \<open>The search button of \<open>main\<close> (lines 162-236)\<close>

record session_state =
  search_cache :: "string \<rightharpoonup> (string \<rightharpoonup> subtitle)"
  enhanced_subtitles :: "string \<rightharpoonup> string"

text \<open>Lines 163-168: both dicts start empty.\<close>

definition initial_session :: session_state where
  "initial_session = \<lparr>search_cache = Map.empty, enhanced_subtitles = Map.empty\<rparr>"

text \<open>Lines 198-203.\<close>

definition build_provider_configs :: "env \<Rightarrow> form \<Rightarrow> provider_configs" where
  "build_provider_configs env f =
     (if ''opensubtitles'' \<in> set (in_selected_providers f)
      then [(''opensubtitles'', [(''username'', OPEN_SUBTITLES_USERNAME env),
                                 (''password'', OPEN_SUBTITLES_PASSWORD env)])]
      else [])"

text \<open>The call of lines 224-230, with the arguments \<open>main\<close> passes.\<close>

definition search_for :: "env \<Rightarrow> form \<Rightarrow> world \<Rightarrow> (exn + (string \<rightharpoonup> subtitle)) \<times> world" where
  "search_for env f w =
     (let season_num = (if in_media_type f = ''episode'' then Some (in_season f) else None);
          episode_num = (if in_media_type f = ''episode'' then Some (in_episode f) else None)
      in search_and_download_subtitles env (in_title f) (in_year f) (in_media_type f)
           (in_selected_langs f) (in_selected_providers f) season_num episode_num
           (Some (build_provider_configs env f)) w)"

text \<open>
  One click on "Search Subtitles" (lines 207-236): the value of \<open>results\<close> afterwards
  (\<open>None\<close> when the required fields are missing and \<open>results\<close> is never bound), the session
  state and the world.
\<close>

definition search_clicked ::
  "env \<Rightarrow> form \<Rightarrow> session_state \<times> world
     \<Rightarrow> (string \<rightharpoonup> subtitle) option \<times> session_state \<times> world" where
  "search_clicked env f sw =
     (case sw of (ss, w) \<Rightarrow>
        if in_title f = [] \<or> in_selected_langs f = [] \<or> in_selected_providers f = []
        then (None, ss, st_error ''Please fill all required fields'' w)
        else
          (case search_cache ss (cache_key f) of
             Some results \<Rightarrow> (Some results, ss, w)
           | None \<Rightarrow>
               (case search_for env f w of
                  (Inr results, w') \<Rightarrow>
                    (Some results,
                     ss\<lparr>search_cache := (search_cache ss)(cache_key f \<mapsto> results)\<rparr>, w')
                | (Inl e, w') \<Rightarrow>
                    (Some Map.empty, ss, st_error (''Error: '' @ str_exn e) w'))))"

text \<open>The negation of the test of line 208: the click goes on to the cache.\<close>

definition required_fields_filled :: "form \<Rightarrow> bool" where
  "required_fields_filled f =
     (in_title f \<noteq> [] \<and> in_selected_langs f \<noteq> [] \<and> in_selected_providers f \<noteq> [])"

text \<open>A session: the clicks one after the other, each with the form as it stands then.\<close>

fun run_session ::
  "env \<Rightarrow> form list \<Rightarrow> session_state \<times> world
     \<Rightarrow> (string \<rightharpoonup> subtitle) option list \<times> session_state \<times> world" where
  "run_session env [] sw = ([], sw)"
| "run_session env (f # fs) sw =
     (case search_clicked env f sw of
        (results, sw') \<Rightarrow>
          (case run_session env fs sw' of (rs, sw'') \<Rightarrow> (results # rs, sw'')))"

text \<open>
  Every run of \<open>search_and_download_subtitles\<close> starts with one call of \<open>tempfile.mkdtemp\<close>
  and makes no other, so the calls of \<open>mkdtemp\<close> in the world count the runs of the
  function.
\<close>

definition aggregator_runs :: "world \<Rightarrow> nat" where
  "aggregator_runs w = count_list (calls w) Mkdtemp"

section \<open>Concrete inputs\<close>

text \<open>
  A world with an empty \<open>/tmp\<close>, stub libraries whose every call succeeds and whose provider
  capability hands back the given matches, and variants of them in which one capability
  fails.
\<close>

definition world0 :: world where
  "world0 = \<lparr>dirs = [''/tmp''], files = [], calls = [], st_errors = []\<rparr>"

definition scanned :: "string \<Rightarrow> video" where
  "scanned p = \<lparr>video_name = p, video_title = None, video_year = None, video_series = None,
     video_season = None, video_episode = None\<rparr>"

definition sub_eng :: subtitle where
  "sub_eng = \<lparr>language = Language ''eng'', provider_name = ''opensubtitles'',
     subtitle_id = ''101'', content = ''1'', hearing_impaired = None\<rparr>"

definition sub_eng2 :: subtitle where
  "sub_eng2 = \<lparr>language = Language ''eng'', provider_name = ''podnapisi'',
     subtitle_id = ''202'', content = ''2'', hearing_impaired = Some False\<rparr>"

definition sub_fra :: subtitle where
  "sub_fra = \<lparr>language = Language ''fra'', provider_name = ''opensubtitles'',
     subtitle_id = ''303'', content = ''3'', hearing_impaired = None\<rparr>"

definition env_stub :: "subtitle list \<Rightarrow> env" where
  "env_stub subs =
     \<lparr>mkdtemp = (\<lambda>w. Inr ''/tmp/tmpab12cd''),
      open_wb = (\<lambda>w p. None),
      scan_video = (\<lambda>w p. Inr (scanned p)),
      Language_error = (\<lambda>l. None),
      download_best_subtitles = (\<lambda>w videos ls ps cs. Inr (\<lambda>v. if v \<in> set videos then Some subs else None)),
      rmtree_error = (\<lambda>w d. None),
      chat_completions_create = (\<lambda>w r. Inr (PlainText '' 1 '')),
      OPEN_SUBTITLES_USERNAME = None,
      OPEN_SUBTITLES_PASSWORD = None,
      OPENROUTER_API_KEY = None,
      OPENROUTER_MODEL = ''deepseek/deepseek-r1-zero:free''\<rparr>"

definition env_unreachable :: env where
  "env_unreachable =
     (env_stub [])\<lparr>download_best_subtitles :=
        (\<lambda>w videos ls ps cs. Inl (Exception ''no provider reachable''))\<rparr>"

definition env_rate_limited :: env where
  "env_rate_limited =
     (env_stub [])\<lparr>OPENROUTER_API_KEY := Some ''sk-or-v1'',
        chat_completions_create := (\<lambda>w r. Inl (Exception ''Error code: 429''))\<rparr>"

definition env_unauthorized :: env where
  "env_unauthorized =
     (env_stub [])\<lparr>OPENROUTER_API_KEY := Some ''sk-or-v1'',
        chat_completions_create := (\<lambda>w r. Inl (Exception ''Error code: 401''))\<rparr>"

text \<open>
  The table of lines 36-44, and stub libraries whose \<open>Language\<close> accepts the codes of the
  table and raises on every other string.
\<close>

definition LANGUAGES :: "(string \<times> string) list" where
  "LANGUAGES = [(''eng'', ''English''), (''fas'', ''Persian''), (''spa'', ''Spanish''),
     (''fra'', ''French''), (''deu'', ''German''), (''zho'', ''Chinese''), (''ara'', ''Arabic'')]"

definition env_strict :: "subtitle list \<Rightarrow> env" where
  "env_strict subs =
     (env_stub subs)\<lparr>Language_error :=
        (\<lambda>l. if l \<in> set (map fst LANGUAGES) then None
             else Some (Exception (l @ '' is not a valid language'')))\<rparr>"

definition env_completion :: env where
  "env_completion =
     (env_stub [])\<lparr>OPENROUTER_API_KEY := Some ''sk-or-v1'',
        chat_completions_create := (\<lambda>w r. Inr (ChatCompletion ['' 1 '']))\<rparr>"

definition form_inception :: form where
  "form_inception = \<lparr>in_media_type = ''movie'', in_title = ''Inception'', in_year = 2010,
     in_season = 1, in_episode = 1, in_selected_langs = [''eng''],
     in_selected_providers = [''opensubtitles'']\<rparr>"

definition form_eng_fra :: form where
  "form_eng_fra = \<lparr>in_media_type = ''movie'', in_title = ''Inception'', in_year = 2010,
     in_season = 1, in_episode = 1, in_selected_langs = [''eng'', ''fra''],
     in_selected_providers = [''opensubtitles'', ''podnapisi'']\<rparr>"

definition form_fra_eng :: form where
  "form_fra_eng = \<lparr>in_media_type = ''movie'', in_title = ''Inception'', in_year = 2010,
     in_season = 1, in_episode = 1, in_selected_langs = [''fra'', ''eng''],
     in_selected_providers = [''podnapisi'', ''opensubtitles'']\<rparr>"

section \<open>Lemmas about the search function\<close>

lemma organize_lookup:
  "organize results subs c =
     (if filter (\<lambda>sub. alpha3 (language sub) = c) subs = [] then results c
      else Some (last (filter (\<lambda>sub. alpha3 (language sub) = c) subs)))"
  by (induction subs arbitrary: results) auto

lemma dom_organize:
  "dom (organize results subs) = dom results \<union> (\<lambda>sub. alpha3 (language sub)) ` set subs"
  by (induction subs arbitrary: results) auto

lemma make_languages_Inr:
  "make_languages err ls = Inr Ls \<Longrightarrow> Ls = map Language ls"
  by (induction ls arbitrary: Ls) (auto split: option.splits sum.splits)

lemma make_languages_accepted:
  "\<forall>l \<in> set ls. err l = None \<Longrightarrow> make_languages err ls = Inr (map Language ls)"
  by (induction ls) simp_all

lemma search_body_runs:
  "aggregator_runs (snd (search_body env title year media_type languages providers_list season
       episode provider_configs dummy_path w)) = aggregator_runs w"
  by (simp add: search_body_def aggregator_runs_def called_def Let_def
        split: option.split sum.split)

lemma search_runs:
  "aggregator_runs (snd (search_and_download_subtitles env title year media_type languages
       providers_list season episode provider_configs w)) = Suc (aggregator_runs w)"
proof (cases "mkdtemp env w")
  case (Inl e)
  then show ?thesis
    by (simp add: search_and_download_subtitles_def aggregator_runs_def called_def)
next
  case (Inr temp_dir)
  let ?w1 = "(called Mkdtemp w)\<lparr>dirs := List.insert temp_dir (dirs w)\<rparr>"
  let ?b = "search_body env title year media_type languages providers_list season
       episode provider_configs (os_path_join temp_dir (title @ ''.mkv'')) ?w1"
  obtain outcome w2 where b: "?b = (outcome, w2)"
    by (cases ?b)
  have "aggregator_runs (snd ?b) = aggregator_runs ?w1"
    by (rule search_body_runs)
  then have "aggregator_runs w2 = aggregator_runs ?w1"
    unfolding b by simp
  also have "\<dots> = Suc (aggregator_runs w)"
    by (simp add: aggregator_runs_def called_def)
  finally have w2: "aggregator_runs w2 = Suc (aggregator_runs w)" .
  show ?thesis
  proof (cases "rmtree_error env w2 temp_dir")
    case None
    with Inr b w2 show ?thesis
      by (simp add: search_and_download_subtitles_def Let_def aggregator_runs_def called_def
            rmtree_def)
  next
    case (Some e)
    with Inr b w2 show ?thesis
      by (simp add: search_and_download_subtitles_def Let_def aggregator_runs_def called_def)
  qed
qed

text \<open>
  When the body of the \<open>try\<close> block returns, it has called the provider capability once,
  as its last call, and its results are the loop's dict over the matches for the video.
\<close>

lemma search_body_returns:
  assumes "search_body env title year media_type languages providers_list season episode
             provider_configs dummy_path w = (Inr results, w')"
  shows "\<exists>w2 video0 subtitles.
           download_best_subtitles env w2
               [set_metadata title year media_type season episode video0]
               (Language ` set languages) providers_list (or_empty provider_configs)
             = Inr subtitles
         \<and> results = organize Map.empty
               (get_or_nil subtitles (set_metadata title year media_type season episode video0))
         \<and> calls w' = calls w2 @ [Download_best_subtitles
               [set_metadata title year media_type season episode video0]
               (Language ` set languages) providers_list (or_empty provider_configs)]"
proof -
  let ?w1 = "(called (Open_wb dummy_path) w)\<lparr>files := List.insert dummy_path (files w)\<rparr>"
  let ?w2 = "called (Scan_video dummy_path) ?w1"
  from assms have opened: "open_wb env w dummy_path = None"
    by (cases "open_wb env w dummy_path") (simp_all add: search_body_def)
  from assms opened obtain video0 where scan: "scan_video env ?w1 dummy_path = Inr video0"
    by (cases "scan_video env ?w1 dummy_path") (simp_all add: search_body_def Let_def)
  let ?video = "set_metadata title year media_type season episode video0"
  from assms opened scan obtain Ls
    where langs: "make_languages (Language_error env) languages = Inr Ls"
    by (cases "make_languages (Language_error env) languages")
       (simp_all add: search_body_def Let_def)
  from make_languages_Inr [OF langs] have Ls: "set Ls = Language ` set languages"
    by simp
  let ?call = "Download_best_subtitles [?video] (set Ls) providers_list
                 (or_empty provider_configs)"
  from assms opened scan langs obtain subtitles
    where dl: "download_best_subtitles env ?w2 [?video] (set Ls) providers_list
                 (or_empty provider_configs) = Inr subtitles"
    by (cases "download_best_subtitles env ?w2 [?video] (set Ls) providers_list
                 (or_empty provider_configs)")
       (simp_all add: search_body_def Let_def)
  from assms opened scan langs dl
  have "results = organize Map.empty (get_or_nil subtitles ?video)"
    and "calls w' = calls ?w2 @ [?call]"
    by (auto simp add: search_body_def Let_def called_def)
  with dl show ?thesis
    unfolding Ls by blast
qed

lemma search_returns:
  assumes "search_and_download_subtitles env title year media_type languages providers_list
             season episode provider_configs w = (Inr results, w')"
  shows "\<exists>w2 video0 subtitles.
           download_best_subtitles env w2
               [set_metadata title year media_type season episode video0]
               (Language ` set languages) providers_list (or_empty provider_configs)
             = Inr subtitles
         \<and> results = organize Map.empty
               (get_or_nil subtitles (set_metadata title year media_type season episode video0))
         \<and> Download_best_subtitles
               [set_metadata title year media_type season episode video0]
               (Language ` set languages) providers_list (or_empty provider_configs)
             \<in> set (calls w')"
proof (cases "mkdtemp env w")
  case (Inl e)
  with assms show ?thesis
    by (simp add: search_and_download_subtitles_def)
next
  case (Inr temp_dir)
  let ?w1 = "(called Mkdtemp w)\<lparr>dirs := List.insert temp_dir (dirs w)\<rparr>"
  let ?b = "search_body env title year media_type languages providers_list season
       episode provider_configs (os_path_join temp_dir (title @ ''.mkv'')) ?w1"
  obtain outcome wb where b: "?b = (outcome, wb)"
    by (cases ?b)
  from assms Inr b have out: "outcome = Inr results"
      and w': "w' = called (Rmtree temp_dir) (rmtree temp_dir wb)"
    by (simp_all add: search_and_download_subtitles_def Let_def split: option.splits)
  from search_body_returns [OF b [unfolded out]] w' show ?thesis
    by (fastforce simp add: called_def rmtree_def)
qed

section \<open>Lemmas about the stub libraries\<close>

lemma make_languages_known:
  "make_languages (\<lambda>l. None) ls = Inr (map Language ls)"
  by (induction ls) simp_all

lemma stub_search:
  "fst (search_and_download_subtitles (env_stub subs) title year media_type languages
          providers_list season episode provider_configs w)
     = Inr (organize Map.empty subs)"
  by (simp add: search_and_download_subtitles_def search_body_def env_stub_def Let_def
        get_or_nil_def make_languages_known split: prod.split)

lemma unreachable_search:
  "fst (search_and_download_subtitles env_unreachable title year media_type languages
          providers_list season episode provider_configs w)
     = Inl (Exception ''no provider reachable'')"
  by (simp add: search_and_download_subtitles_def search_body_def env_unreachable_def
        env_stub_def Let_def make_languages_known split: prod.split)

section \<open>Lemmas about the search button\<close>

lemma search_for_runs:
  "aggregator_runs (snd (search_for env f w)) = Suc (aggregator_runs w)"
  by (simp add: search_for_def Let_def search_runs)

lemma search_clicked_hit:
  "required_fields_filled f \<Longrightarrow> search_cache ss (cache_key f) = Some results
     \<Longrightarrow> search_clicked env f (ss, w) = (Some results, ss, w)"
  by (simp add: search_clicked_def required_fields_filled_def)

lemma search_clicked_miss_runs:
  assumes "required_fields_filled f" and "search_cache ss (cache_key f) = None"
  shows "aggregator_runs (snd (snd (search_clicked env f (ss, w)))) = Suc (aggregator_runs w)"
proof -
  obtain outcome w1 where run: "search_for env f w = (outcome, w1)"
    by (cases "search_for env f w")
  from search_for_runs [of env f w] run have "aggregator_runs w1 = Suc (aggregator_runs w)"
    by simp
  with assms run show ?thesis
    by (cases outcome)
       (simp_all add: search_clicked_def required_fields_filled_def st_error_def
          aggregator_runs_def)
qed

lemma run_session_hits:
  "\<forall>g \<in> set fs. required_fields_filled g \<and> cache_key g = k
     \<Longrightarrow> search_cache ss k = Some results
     \<Longrightarrow> run_session env fs (ss, w) = (replicate (length fs) (Some results), ss, w)"
  by (induction fs) (simp_all add: search_clicked_hit)

text \<open>
  No click removes or replaces an entry of the cache: clicks with other keys, whatever
  their outcome, leave the entry for \<open>k\<close> as it is.
\<close>

lemma search_clicked_keeps_entry:
  assumes "search_cache ss k = Some results"
  shows "search_cache (fst (snd (search_clicked env g (ss, w)))) k = Some results"
proof (cases "search_cache ss (cache_key g)")
  case None
  with assms have "cache_key g \<noteq> k"
    by auto
  with assms None show ?thesis
    by (cases "search_for env g w")
       (auto simp add: search_clicked_def split: sum.splits)
next
  case (Some r)
  with assms show ?thesis
    by (simp add: search_clicked_def)
qed

lemma run_session_keeps_entry:
  "search_cache ss k = Some results
     \<Longrightarrow> search_cache (fst (snd (run_session env gs (ss, w)))) k = Some results"
proof (induction gs arbitrary: ss w)
  case Nil
  then show ?case by simp
next
  case (Cons g gs)
  obtain r ss' w' where step: "search_clicked env g (ss, w) = (r, ss', w')"
    by (cases "search_clicked env g (ss, w)")
  from search_clicked_keeps_entry [OF Cons.prems, of env g w] step
  have "search_cache ss' k = Some results"
    by simp
  from Cons.IH [OF this, of w'] step show ?case
    by (cases "run_session env gs (ss', w')") simp
qed

section \<open>The cache key\<close>

text \<open>
  \<open>'_'.join\<close> over tokens that contain no underscore determines the list of tokens, as
  long as the list is not empty.
\<close>

lemma join_Cons: "ys \<noteq> [] \<Longrightarrow> join sep (x # ys) = x @ sep @ join sep ys"
  by (cases ys) simp_all

lemma join_append:
  "xs \<noteq> [] \<Longrightarrow> ys \<noteq> [] \<Longrightarrow> join sep (xs @ ys) = join sep xs @ sep @ join sep ys"
proof (induction xs)
  case Nil
  then show ?case by simp
next
  case (Cons x xs)
  then show ?case
    by (cases "xs = []") (simp_all add: join_Cons)
qed

lemma first_token:
  assumes "CHR ''_'' \<notin> set x" and "CHR ''_'' \<notin> set y"
    and "x @ CHR ''_'' # r = y @ CHR ''_'' # s"
  shows "x = y \<and> r = s"
proof -
  from assms(1) have "takeWhile (\<lambda>c. c \<noteq> CHR ''_'') (x @ CHR ''_'' # r) = x"
    by (subst takeWhile_append2) auto
  moreover from assms(2) have "takeWhile (\<lambda>c. c \<noteq> CHR ''_'') (y @ CHR ''_'' # s) = y"
    by (subst takeWhile_append2) auto
  ultimately have "x = y"
    using assms(3) by simp
  with assms(3) show ?thesis
    by simp
qed

lemma join_underscore_inj:
  assumes "\<forall>x \<in> set xs. CHR ''_'' \<notin> set x" and "\<forall>y \<in> set ys. CHR ''_'' \<notin> set y"
    and "xs \<noteq> []" and "ys \<noteq> []"
    and "join ''_'' xs = join ''_'' ys"
  shows "xs = ys"
  using assms
proof (induction xs arbitrary: ys)
  case Nil
  then show ?case by simp
next
  case (Cons x xs)
  from Cons.prems(4) obtain y ys' where ys: "ys = y # ys'"
    by (cases ys) auto
  from Cons.prems(1) have x: "CHR ''_'' \<notin> set x" by simp
  from Cons.prems(2) ys have y: "CHR ''_'' \<notin> set y" by simp
  show ?case
  proof (cases "xs = []")
    case True
    show ?thesis
    proof (cases "ys' = []")
      case True
      with \<open>xs = []\<close> Cons.prems(5) ys show ?thesis by simp
    next
      case False
      with \<open>xs = []\<close> Cons.prems(5) ys have "x = y @ CHR ''_'' # join ''_'' ys'"
        by (simp add: join_Cons)
      with x show ?thesis by auto
    qed
  next
    case False
    show ?thesis
    proof (cases "ys' = []")
      case True
      with \<open>xs \<noteq> []\<close> Cons.prems(5) ys have "y = x @ CHR ''_'' # join ''_'' xs"
        by (simp add: join_Cons)
      with y show ?thesis by auto
    next
      case ys': False
      with False Cons.prems(5) ys
      have "x @ CHR ''_'' # join ''_'' xs = y @ CHR ''_'' # join ''_'' ys'"
        by (simp add: join_Cons)
      from first_token [OF x y this] have "x = y" and rest: "join ''_'' xs = join ''_'' ys'"
        by simp_all
      from Cons.prems(1) have "\<forall>x \<in> set xs. CHR ''_'' \<notin> set x" by simp
      moreover from Cons.prems(2) ys have "\<forall>y \<in> set ys'. CHR ''_'' \<notin> set y" by simp
      ultimately have "xs = ys'"
        using False ys' rest by (rule Cons.IH)
      with \<open>x = y\<close> ys show ?thesis by simp
    qed
  qed
qed

text \<open>
  Claim C1, as amended. Take two forms that agree on title, year and media type, and on
  season and episode when the media type is "episode". If their language lists are equal
  as lists and their provider lists are equal as lists, they get the same cache key.
  Conversely, if both forms have their required fields filled, their language lists have
  no repetition and are equal as sets, and no language code or provider name contains an
  underscore, then they get the same cache key only if the language lists are equal as
  lists and the provider lists are equal as lists: the key keeps the order of selection.
\<close>

theorem cache_key_equal_iff_same_order:
  assumes "in_title f = in_title g"
    and "in_year f = in_year g"
    and "in_media_type f = in_media_type g"
    and "in_media_type f = ''episode'' \<Longrightarrow> in_season f = in_season g \<and> in_episode f = in_episode g"
  shows "(in_selected_langs f = in_selected_langs g
            \<and> in_selected_providers f = in_selected_providers g
          \<longrightarrow> cache_key f = cache_key g)
       \<and> (required_fields_filled f \<and> required_fields_filled g
            \<and> set (in_selected_langs f) = set (in_selected_langs g)
            \<and> distinct (in_selected_langs f) \<and> distinct (in_selected_langs g)
            \<and> (\<forall>s \<in> set (in_selected_langs f @ in_selected_providers f
                           @ in_selected_langs g @ in_selected_providers g). CHR ''_'' \<notin> set s)
            \<and> cache_key f = cache_key g
          \<longrightarrow> in_selected_langs f = in_selected_langs g
              \<and> in_selected_providers f = in_selected_providers g)"
proof (rule conjI; rule impI)
  assume "in_selected_langs f = in_selected_langs g
            \<and> in_selected_providers f = in_selected_providers g"
  with assms show "cache_key f = cache_key g"
    by (simp add: cache_key_def Let_def)
next
  assume h: "required_fields_filled f \<and> required_fields_filled g
            \<and> set (in_selected_langs f) = set (in_selected_langs g)
            \<and> distinct (in_selected_langs f) \<and> distinct (in_selected_langs g)
            \<and> (\<forall>s \<in> set (in_selected_langs f @ in_selected_providers f
                           @ in_selected_langs g @ in_selected_providers g). CHR ''_'' \<notin> set s)
            \<and> cache_key f = cache_key g"
  let ?lf = "in_selected_langs f" and ?pf = "in_selected_providers f"
  let ?lg = "in_selected_langs g" and ?pg = "in_selected_providers g"
  from h have ne: "?lf \<noteq> []" "?pf \<noteq> []" "?lg \<noteq> []" "?pg \<noteq> []"
    by (simp_all add: required_fields_filled_def)
  from h have sets: "set ?lf = set ?lg" and df: "distinct ?lf" and dg: "distinct ?lg"
    by blast+
  from distinct_card [OF df] distinct_card [OF dg] sets have len: "length ?lf = length ?lg"
    by simp
  let ?head = "in_title f @ ''_'' @ in_media_type f @ ''_'' @ str_int (in_year f) @ ''_''"
  let ?tail = "if in_media_type f = ''episode''
               then ''_'' @ str_int (in_season f) @ ''_'' @ str_int (in_episode f) else []"
  have kf: "cache_key f = ?head @ (join ''_'' ?lf @ ''_'' @ join ''_'' ?pf) @ ?tail"
    by (simp add: cache_key_def Let_def)
  from assms have kg: "cache_key g = ?head @ (join ''_'' ?lg @ ''_'' @ join ''_'' ?pg) @ ?tail"
    by (simp add: cache_key_def Let_def)
  from h kf kg have "join ''_'' ?lf @ ''_'' @ join ''_'' ?pf = join ''_'' ?lg @ ''_'' @ join ''_'' ?pg"
    by simp
  with ne have "join ''_'' (?lf @ ?pf) = join ''_'' (?lg @ ?pg)"
    by (simp add: join_append)
  moreover from h have "\<forall>x \<in> set (?lf @ ?pf). CHR ''_'' \<notin> set x"
    and "\<forall>y \<in> set (?lg @ ?pg). CHR ''_'' \<notin> set y"
    by auto
  moreover from ne have "?lf @ ?pf \<noteq> []" "?lg @ ?pg \<noteq> []" by simp_all
  ultimately have "?lf @ ?pf = ?lg @ ?pg"
    by (intro join_underscore_inj)
  with len show "?lf = ?lg \<and> ?pf = ?pg"
    by simp
qed

text \<open>
  The theorem at the form for "Inception" with \<open>eng, fra\<close>: a form that differs in the season
  and episode left over in the form has the same key, and the form with both selections
  in the other order has a different key.
\<close>

theorem cache_key_equal_iff_same_order_witness:
  "cache_key form_eng_fra = cache_key (form_eng_fra\<lparr>in_season := 7, in_episode := 3\<rparr>)
   \<and> cache_key form_eng_fra \<noteq> cache_key form_fra_eng"
proof -
  have "cache_key form_eng_fra = cache_key (form_eng_fra\<lparr>in_season := 7, in_episode := 3\<rparr>)"
    using cache_key_equal_iff_same_order
            [of form_eng_fra "form_eng_fra\<lparr>in_season := 7, in_episode := 3\<rparr>"]
    by (simp add: form_eng_fra_def)
  moreover have "cache_key form_eng_fra \<noteq> cache_key form_fra_eng"
  proof
    assume "cache_key form_eng_fra = cache_key form_fra_eng"
    with cache_key_equal_iff_same_order [of form_eng_fra form_fra_eng]
    have "in_selected_langs form_eng_fra = in_selected_langs form_fra_eng"
      by (simp add: form_eng_fra_def form_fra_eng_def required_fields_filled_def insert_commute)
    then show False
      by (simp add: form_eng_fra_def form_fra_eng_def)
  qed
  ultimately show ?thesis ..
qed

text \<open>
  Claim C1 as stated fails: the languages \<open>eng, fra\<close> and the providers
  \<open>opensubtitles, podnapisi\<close>, selected in the two possible orders, are equal as sets and
  everything else agrees, and the keys are
  \<open>Inception_movie_2010_eng_fra_opensubtitles_podnapisi\<close> and
  \<open>Inception_movie_2010_fra_eng_podnapisi_opensubtitles\<close>.
\<close>

theorem cache_key_order_counterexample:
  "in_title form_eng_fra = in_title form_fra_eng
   \<and> in_year form_eng_fra = in_year form_fra_eng
   \<and> in_media_type form_eng_fra = in_media_type form_fra_eng
   \<and> in_season form_eng_fra = in_season form_fra_eng
   \<and> in_episode form_eng_fra = in_episode form_fra_eng
   \<and> set (in_selected_langs form_eng_fra) = set (in_selected_langs form_fra_eng)
   \<and> set (in_selected_providers form_eng_fra) = set (in_selected_providers form_fra_eng)
   \<and> cache_key form_eng_fra \<noteq> cache_key form_fra_eng"
  by (auto simp add: cache_key_def form_eng_fra_def form_fra_eng_def)

section \<open>The results of a search\<close>

text \<open>
  Claim C2, as amended. The loop of lines 93-96 stores every match the provider
  capability hands back, under the match's own language code, and never looks at the
  requested languages. So whenever the search returns a result set, it has called the
  capability with the requested languages, and the keys of the result set are exactly the
  language codes of the matches the capability returned for the video; the keys are all
  requested languages if every returned match has a requested language.
\<close>

theorem result_keys_are_returned_languages:
  assumes "search_and_download_subtitles env title year media_type languages providers_list
             season episode provider_configs w = (Inr results, w')"
  shows "\<exists>w2 video subtitles.
           download_best_subtitles env w2 [video] (Language ` set languages) providers_list
             (or_empty provider_configs) = Inr subtitles
         \<and> Download_best_subtitles [video] (Language ` set languages) providers_list
             (or_empty provider_configs) \<in> set (calls w')
         \<and> dom results = (\<lambda>sub. alpha3 (language sub)) ` set (get_or_nil subtitles video)
         \<and> ((\<forall>sub \<in> set (get_or_nil subtitles video). alpha3 (language sub) \<in> set languages)
              \<longrightarrow> dom results \<subseteq> set languages)"
proof -
  from search_returns [OF assms] obtain w2 video0 subtitles
    where "download_best_subtitles env w2
             [set_metadata title year media_type season episode video0]
             (Language ` set languages) providers_list (or_empty provider_configs)
           = Inr subtitles"
      and res: "results = organize Map.empty
                 (get_or_nil subtitles (set_metadata title year media_type season episode video0))"
      and "Download_best_subtitles
             [set_metadata title year media_type season episode video0]
             (Language ` set languages) providers_list (or_empty provider_configs)
           \<in> set (calls w')"
    by blast
  moreover from res have keys: "dom results = (\<lambda>sub. alpha3 (language sub))
      ` set (get_or_nil subtitles (set_metadata title year media_type season episode video0))"
    by (simp add: dom_organize)
  moreover from keys
  have "(\<forall>sub \<in> set (get_or_nil subtitles
                       (set_metadata title year media_type season episode video0)).
            alpha3 (language sub) \<in> set languages)
        \<longrightarrow> dom results \<subseteq> set languages"
    by auto
  ultimately show ?thesis
    by blast
qed

text \<open>
  The theorem at a search for \<open>eng\<close> and \<open>fra\<close> in which the capability returns one match
  for each.
\<close>

theorem result_keys_are_returned_languages_witness:
  "\<exists>results w'.
     search_and_download_subtitles (env_stub [sub_eng, sub_fra]) ''Inception'' 2010 ''movie''
       [''eng'', ''fra''] [''opensubtitles''] None None None world0 = (Inr results, w')
     \<and> dom results = {''eng'', ''fra''}"
proof -
  let ?run = "search_and_download_subtitles (env_stub [sub_eng, sub_fra]) ''Inception'' 2010
                ''movie'' [''eng'', ''fra''] [''opensubtitles''] None None None world0"
  obtain results w' where run: "?run = (Inr results, w')"
    using stub_search [of "[sub_eng, sub_fra]" "''Inception''" 2010 "''movie''"
            "[''eng'', ''fra'']" "[''opensubtitles'']" None None None world0]
    by (cases ?run) simp
  from result_keys_are_returned_languages [OF run] obtain w2 video subtitles
    where dl: "download_best_subtitles (env_stub [sub_eng, sub_fra]) w2 [video]
             (Language ` set [''eng'', ''fra'']) [''opensubtitles''] (or_empty None)
           = Inr subtitles"
      and keys: "dom results
                 = (\<lambda>sub. alpha3 (language sub)) ` set (get_or_nil subtitles video)"
    by blast
  from dl have "get_or_nil subtitles video = [sub_eng, sub_fra]"
    by (auto simp add: env_stub_def get_or_nil_def)
  with keys have "dom results = {''eng'', ''fra''}"
    by (simp add: sub_eng_def sub_fra_def)
  with run show ?thesis
    by blast
qed

text \<open>
  Claim C2 as stated fails: only \<open>eng\<close> is requested, the capability hands back a \<open>fra\<close>
  match, and the result set has the key \<open>fra\<close>.
\<close>

theorem extra_language_counterexample:
  "fst (search_and_download_subtitles (env_stub [sub_fra]) ''Inception'' 2010 ''movie''
          [''eng''] [''opensubtitles''] None None None world0) = Inr [''fra'' \<mapsto> sub_fra]
   \<and> [''fra'' \<mapsto> sub_fra] ''fra'' = Some sub_fra
   \<and> ''fra'' \<notin> set [''eng'']"
  by (simp add: stub_search sub_fra_def)

text \<open>
  Claim C7. Whenever the search returns a result set, then for every language code that
  one or more of the matches returned by the capability carry (so also for a code carried
  by two or more), the result set maps the code to the last of these matches in the order
  of the returned collection.
\<close>

theorem last_match_wins:
  assumes "search_and_download_subtitles env title year media_type languages providers_list
             season episode provider_configs w = (Inr results, w')"
  shows "\<exists>w2 video subtitles.
           download_best_subtitles env w2 [video] (Language ` set languages) providers_list
             (or_empty provider_configs) = Inr subtitles
         \<and> Download_best_subtitles [video] (Language ` set languages) providers_list
             (or_empty provider_configs) \<in> set (calls w')
         \<and> (\<forall>c. filter (\<lambda>sub. alpha3 (language sub) = c) (get_or_nil subtitles video) \<noteq> []
                \<longrightarrow> results c
                   = Some (last (filter (\<lambda>sub. alpha3 (language sub) = c)
                                   (get_or_nil subtitles video))))"
proof -
  from search_returns [OF assms] obtain w2 video0 subtitles
    where "download_best_subtitles env w2
             [set_metadata title year media_type season episode video0]
             (Language ` set languages) providers_list (or_empty provider_configs)
           = Inr subtitles"
      and res: "results = organize Map.empty
                 (get_or_nil subtitles (set_metadata title year media_type season episode video0))"
      and "Download_best_subtitles
             [set_metadata title year media_type season episode video0]
             (Language ` set languages) providers_list (or_empty provider_configs)
           \<in> set (calls w')"
    by blast
  moreover from res have "\<forall>c. filter (\<lambda>sub. alpha3 (language sub) = c)
        (get_or_nil subtitles (set_metadata title year media_type season episode video0)) \<noteq> []
      \<longrightarrow> results c = Some (last (filter (\<lambda>sub. alpha3 (language sub) = c)
          (get_or_nil subtitles (set_metadata title year media_type season episode video0))))"
    by (simp add: organize_lookup)
  ultimately show ?thesis
    by blast
qed

text \<open>
  The theorem at a search in which the capability returns two \<open>eng\<close> matches with a \<open>fra\<close>
  match between them: \<open>eng\<close> is mapped to the second one.
\<close>

theorem last_match_wins_witness:
  "\<exists>results w'.
     search_and_download_subtitles (env_stub [sub_eng, sub_fra, sub_eng2]) ''Inception'' 2010
       ''movie'' [''eng'', ''fra''] [''opensubtitles''] None None None world0 = (Inr results, w')
     \<and> results ''eng'' = Some sub_eng2"
proof -
  let ?run = "search_and_download_subtitles (env_stub [sub_eng, sub_fra, sub_eng2])
                ''Inception'' 2010 ''movie'' [''eng'', ''fra''] [''opensubtitles''] None None
                None world0"
  obtain results w' where run: "?run = (Inr results, w')"
    using stub_search [of "[sub_eng, sub_fra, sub_eng2]" "''Inception''" 2010 "''movie''"
            "[''eng'', ''fra'']" "[''opensubtitles'']" None None None world0]
    by (cases ?run) simp
  from last_match_wins [OF run] obtain w2 video subtitles
    where dl: "download_best_subtitles (env_stub [sub_eng, sub_fra, sub_eng2]) w2 [video]
             (Language ` set [''eng'', ''fra'']) [''opensubtitles''] (or_empty None)
           = Inr subtitles"
      and last: "filter (\<lambda>sub. alpha3 (language sub) = ''eng'') (get_or_nil subtitles video) \<noteq> []
         \<longrightarrow> results ''eng'' = Some (last (filter (\<lambda>sub. alpha3 (language sub) = ''eng'')
                                  (get_or_nil subtitles video)))"
    by blast
  from dl have "get_or_nil subtitles video = [sub_eng, sub_fra, sub_eng2]"
    by (auto simp add: env_stub_def get_or_nil_def)
  with last have "results ''eng'' = Some sub_eng2"
    by (simp add: sub_eng_def sub_fra_def sub_eng2_def)
  with run show ?thesis
    by blast
qed

section \<open>Season and episode\<close>

text \<open>
  Claim C3, as amended. \<open>search_and_download_subtitles\<close> has no check of \<open>season\<close> or
  \<open>episode\<close>. For the media type "episode" and any season and episode, \<open>None\<close>, zero and
  negative numbers included: when in this run \<open>mkdtemp\<close> makes the temporary directory, the
  dummy file is written and scanned, and \<open>Language\<close> accepts the codes of this request, the
  function calls the provider capability with a video that carries the season and the
  episode unchanged.
\<close>

theorem episode_numbers_are_not_validated:
  assumes "mkdtemp env w = Inr temp_dir"
    and "open_wb env ((called Mkdtemp w)\<lparr>dirs := List.insert temp_dir (dirs w)\<rparr>)
           (os_path_join temp_dir (title @ ''.mkv'')) = None"
    and "scan_video env
           ((called (Open_wb (os_path_join temp_dir (title @ ''.mkv'')))
               ((called Mkdtemp w)\<lparr>dirs := List.insert temp_dir (dirs w)\<rparr>))
              \<lparr>files := List.insert (os_path_join temp_dir (title @ ''.mkv''))
                         (files ((called Mkdtemp w)\<lparr>dirs := List.insert temp_dir (dirs w)\<rparr>))\<rparr>)
           (os_path_join temp_dir (title @ ''.mkv'')) = Inr video0"
    and "\<forall>l \<in> set languages. Language_error env l = None"
  shows "Download_best_subtitles
           [video0\<lparr>video_title := Some title, video_year := Some year,
                   video_series := Some title, video_season := season,
                   video_episode := episode\<rparr>]
           (Language ` set languages) providers_list (or_empty provider_configs)
         \<in> set (calls (snd (search_and_download_subtitles env title year ''episode'' languages
                              providers_list season episode provider_configs w)))"
proof -
  from assms(4)
  have "make_languages (Language_error env) languages = Inr (map Language languages)"
    by (rule make_languages_accepted)
  with assms(1-3) show ?thesis
    by (simp add: search_and_download_subtitles_def search_body_def Let_def set_metadata_def
          called_def rmtree_def split: sum.split option.split prod.split)
qed

text \<open>
  The theorem at season 0 with no episode, with a \<open>Language\<close> that accepts \<open>eng\<close> and
  rejects \<open>xxx\<close>.
\<close>

theorem episode_numbers_are_not_validated_witness:
  "Language_error (env_strict [sub_eng]) ''xxx'' \<noteq> None
   \<and> Download_best_subtitles
     [(scanned ''/tmp/tmpab12cd/Show.mkv'')\<lparr>video_title := Some ''Show'', video_year := Some 2020,
         video_series := Some ''Show'', video_season := Some 0, video_episode := None\<rparr>]
     (Language ` set [''eng'']) [''opensubtitles''] (or_empty None)
   \<in> set (calls (snd (search_and_download_subtitles (env_strict [sub_eng]) ''Show'' 2020
                        ''episode'' [''eng''] [''opensubtitles''] (Some 0) None None world0)))"
proof -
  have dir: "mkdtemp (env_strict [sub_eng]) world0 = Inr ''/tmp/tmpab12cd''"
    by (simp add: env_strict_def env_stub_def)
  have opened: "open_wb (env_strict [sub_eng])
                  ((called Mkdtemp world0)\<lparr>dirs := List.insert ''/tmp/tmpab12cd'' (dirs world0)\<rparr>)
                  (os_path_join ''/tmp/tmpab12cd'' (''Show'' @ ''.mkv'')) = None"
    by (simp add: env_strict_def env_stub_def)
  have scan: "scan_video (env_strict [sub_eng])
           ((called (Open_wb (os_path_join ''/tmp/tmpab12cd'' (''Show'' @ ''.mkv'')))
               ((called Mkdtemp world0)\<lparr>dirs := List.insert ''/tmp/tmpab12cd'' (dirs world0)\<rparr>))
              \<lparr>files := List.insert (os_path_join ''/tmp/tmpab12cd'' (''Show'' @ ''.mkv''))
                 (files ((called Mkdtemp world0)
                           \<lparr>dirs := List.insert ''/tmp/tmpab12cd'' (dirs world0)\<rparr>))\<rparr>)
           (os_path_join ''/tmp/tmpab12cd'' (''Show'' @ ''.mkv''))
         = Inr (scanned ''/tmp/tmpab12cd/Show.mkv'')"
    by (simp add: env_strict_def env_stub_def os_path_join_def)
  have langs: "\<forall>l \<in> set [''eng'']. Language_error (env_strict [sub_eng]) l = None"
    by (simp add: env_strict_def LANGUAGES_def)
  have strict: "Language_error (env_strict [sub_eng]) ''xxx'' \<noteq> None"
    by (simp add: env_strict_def LANGUAGES_def)
  from strict episode_numbers_are_not_validated [OF dir opened scan langs] show ?thesis
    by blast
qed

text \<open>
  Claim C3 as stated fails: an episode search with season 0, and one with no season and
  no episode, do not fail; each returns the match of the provider capability.
\<close>

theorem season_zero_counterexample:
  "fst (search_and_download_subtitles (env_stub [sub_eng]) ''Show'' 2020 ''episode'' [''eng'']
          [''opensubtitles''] (Some 0) (Some 1) None world0) = Inr [''eng'' \<mapsto> sub_eng]
   \<and> fst (search_and_download_subtitles (env_stub [sub_eng]) ''Show'' 2020 ''episode'' [''eng'']
          [''opensubtitles''] None None None world0) = Inr [''eng'' \<mapsto> sub_eng]"
  by (simp add: stub_search sub_eng_def)

section \<open>The temporary storage\<close>

text \<open>
  For a title without a slash the \<open>finally\<close> clause does what it is there for: whether the
  body returned or raised, the temporary directory and the dummy file in it are gone when
  the function ends (provided \<open>rmtree\<close> itself does not fail).
\<close>

lemma temporary_storage_removed:
  assumes "mkdtemp env w = Inr temp_dir"
    and "temp_dir \<noteq> []" and "last temp_dir \<noteq> CHR ''/''"
    and "CHR ''/'' \<notin> set title"
    and "\<And>w2. rmtree_error env w2 temp_dir = None"
  shows "temp_dir \<notin> set (dirs (snd (search_and_download_subtitles env title year media_type
             languages providers_list season episode provider_configs w)))
       \<and> os_path_join temp_dir (title @ ''.mkv'')
           \<notin> set (files (snd (search_and_download_subtitles env title year media_type
             languages providers_list season episode provider_configs w)))"
proof -
  from assms(2,3) have "drop (length temp_dir - 1) temp_dir \<noteq> ''/''"
    by (cases temp_dir rule: rev_cases) auto
  moreover from assms(4) have "take 1 (title @ ''.mkv'') \<noteq> ''/''"
    by (cases title) auto
  ultimately have path:
    "os_path_join temp_dir (title @ ''.mkv'') = temp_dir @ ''/'' @ title @ ''.mkv''"
    using assms(2) by (simp add: os_path_join_def)
  show ?thesis
    using assms(1,5) unfolding path
    by (auto simp add: search_and_download_subtitles_def search_body_def Let_def called_def
          rmtree_def split: sum.splits option.splits prod.splits)
qed

lemma temporary_storage_removed_on_error:
  "''/tmp/tmpab12cd'' \<notin> set (dirs (snd (search_and_download_subtitles env_unreachable
       ''Inception'' 2010 ''movie'' [''eng''] [''opensubtitles''] None None None world0)))
   \<and> ''/tmp/tmpab12cd/Inception.mkv'' \<notin> set (files (snd (search_and_download_subtitles
       env_unreachable ''Inception'' 2010 ''movie'' [''eng''] [''opensubtitles''] None None None
       world0)))"
  using temporary_storage_removed [where env = env_unreachable and w = world0
      and temp_dir = "''/tmp/tmpab12cd''" and title = "''Inception''" and year = 2010
      and media_type = "''movie''" and languages = "[''eng'']"
      and providers_list = "[''opensubtitles'']" and season = None and episode = None
      and provider_configs = None]
  by (simp add: env_unreachable_def env_stub_def os_path_join_def)

text \<open>
  Claim C8 does not hold of the code for a title that is an absolute path. With the title
  \<open>/tmp/x\<close>, \<open>os.path.join\<close> drops the temporary directory and the dummy file is written
  to \<open>/tmp/x.mkv\<close>; the \<open>finally\<close> clause removes the temporary directory only. The search
  returns its result, and in the world it leaves behind \<open>/tmp/x.mkv\<close> still exists.
\<close>

theorem absolute_title_leaves_dummy_file:
  "search_and_download_subtitles (env_stub [sub_eng]) ''/tmp/x'' 2010 ''movie'' [''eng'']
     [''opensubtitles''] None None None world0
   = (Inr [''eng'' \<mapsto> sub_eng],
      \<lparr>dirs = [''/tmp''], files = [''/tmp/x.mkv''],
       calls = [Mkdtemp, Open_wb ''/tmp/x.mkv'', Scan_video ''/tmp/x.mkv'',
                Download_best_subtitles
                  [(scanned ''/tmp/x.mkv'')\<lparr>video_title := Some ''/tmp/x'',
                                             video_year := Some 2010\<rparr>]
                  {Language ''eng''} [''opensubtitles''] [],
                Rmtree ''/tmp/tmpab12cd''],
       st_errors = []\<rparr>)"
  by (simp add: search_and_download_subtitles_def search_body_def env_stub_def Let_def
        get_or_nil_def or_empty_def set_metadata_def os_path_join_def called_def rmtree_def
        world0_def sub_eng_def)

section \<open>The search cache\<close>

text \<open>
  Claim C5. Take a session state whose cache has no entry for the key \<open>k\<close>, and \<open>N\<close> clicks
  one after the other (\<open>N \<ge> 1\<close>, so also \<open>N \<ge> 2\<close>), each with its required fields filled
  and with cache key \<open>k\<close>, the search of the first of which succeeds with \<open>results\<close>. Then
  every one of the \<open>N\<close> clicks ends with \<open>results\<close>, the cache maps \<open>k\<close> to \<open>results\<close>, and
  the world at the end is the world right after the first search: the search function has
  run exactly once, and the later clicks have made no library call at all.
\<close>

theorem repeated_search_runs_aggregator_once:
  assumes "\<forall>g \<in> set (f # fs). required_fields_filled g \<and> cache_key g = k"
    and "search_cache ss k = None"
    and "search_for env f w = (Inr results, w1)"
  shows "run_session env (f # fs) (ss, w)
           = (replicate (Suc (length fs)) (Some results),
              ss\<lparr>search_cache := (search_cache ss)(k \<mapsto> results)\<rparr>, w1)
         \<and> aggregator_runs w1 = Suc (aggregator_runs w)"
proof -
  from assms(1) have f: "required_fields_filled f" "cache_key f = k"
    and fs: "\<forall>g \<in> set fs. required_fields_filled g \<and> cache_key g = k"
    by simp_all
  let ?ss = "ss\<lparr>search_cache := (search_cache ss)(k \<mapsto> results)\<rparr>"
  from f assms(2,3) have first: "search_clicked env f (ss, w) = (Some results, ?ss, w1)"
    by (simp add: search_clicked_def required_fields_filled_def)
  have "search_cache ?ss k = Some results"
    by simp
  with fs have rest:
    "run_session env fs (?ss, w1) = (replicate (length fs) (Some results), ?ss, w1)"
    by (rule run_session_hits)
  from search_for_runs [of env f w] assms(3) have "aggregator_runs w1 = Suc (aggregator_runs w)"
    by simp
  with first rest show ?thesis
    by simp
qed

text \<open>The theorem at three clicks for "Inception", from the initial session.\<close>

theorem repeated_search_runs_aggregator_once_witness:
  "\<exists>w1. run_session (env_stub [sub_eng]) [form_inception, form_inception, form_inception]
            (initial_session, world0)
         = ([Some [''eng'' \<mapsto> sub_eng], Some [''eng'' \<mapsto> sub_eng], Some [''eng'' \<mapsto> sub_eng]],
            initial_session\<lparr>search_cache := [''Inception_movie_2010_eng_opensubtitles''
                                               \<mapsto> [''eng'' \<mapsto> sub_eng]]\<rparr>, w1)
       \<and> aggregator_runs w1 = 1"
proof -
  let ?env = "env_stub [sub_eng]"
  have key: "cache_key form_inception = ''Inception_movie_2010_eng_opensubtitles''"
    by (simp add: cache_key_def form_inception_def str_int_def str_nat.simps digit_char_def)
  have filled: "\<forall>g \<in> set [form_inception, form_inception, form_inception].
      required_fields_filled g \<and> cache_key g = ''Inception_movie_2010_eng_opensubtitles''"
    by (simp add: key) (simp add: required_fields_filled_def form_inception_def)
  have miss: "search_cache initial_session ''Inception_movie_2010_eng_opensubtitles'' = None"
    by (simp add: initial_session_def)
  obtain w1 where run: "search_for ?env form_inception world0 = (Inr [''eng'' \<mapsto> sub_eng], w1)"
    using stub_search [of "[sub_eng]" "in_title form_inception" "in_year form_inception"
        "in_media_type form_inception" "in_selected_langs form_inception"
        "in_selected_providers form_inception" None None
        "Some (build_provider_configs ?env form_inception)" world0]
    by (cases "search_for ?env form_inception world0")
       (simp add: search_for_def form_inception_def sub_eng_def)
  from repeated_search_runs_aggregator_once [OF filled miss run]
  show ?thesis
    by (simp add: initial_session_def aggregator_runs_def world0_def numeral_3_eq_3)
qed

text \<open>
  Claim C10. When a click misses the cache and its search raises, the click ends with the
  empty result set, shows the error, and leaves the session state, and so the cache, as it
  was. A next click with the same key therefore misses the cache again and runs the search
  function once more.
\<close>

theorem failed_search_is_not_cached:
  assumes "required_fields_filled f"
    and "search_cache ss (cache_key f) = None"
    and "search_for env f w = (Inl e, w1)"
    and "required_fields_filled g"
    and "cache_key g = cache_key f"
  shows "search_clicked env f (ss, w) = (Some Map.empty, ss, st_error (''Error: '' @ str_exn e) w1)
         \<and> aggregator_runs
              (snd (snd (search_clicked env g (ss, st_error (''Error: '' @ str_exn e) w1))))
            = Suc (aggregator_runs (st_error (''Error: '' @ str_exn e) w1))"
proof -
  from assms(1-3)
  have "search_clicked env f (ss, w) = (Some Map.empty, ss, st_error (''Error: '' @ str_exn e) w1)"
    by (simp add: search_clicked_def required_fields_filled_def)
  moreover from assms(2,5) have "search_cache ss (cache_key g) = None"
    by simp
  with assms(4)
  have "aggregator_runs
          (snd (snd (search_clicked env g (ss, st_error (''Error: '' @ str_exn e) w1))))
        = Suc (aggregator_runs (st_error (''Error: '' @ str_exn e) w1))"
    by (rule search_clicked_miss_runs)
  ultimately show ?thesis
    by simp
qed

text \<open>
  The theorem at two clicks for "Inception" while no provider can be reached: the search
  function has run once after the first click and twice after the second.
\<close>

theorem failed_search_is_not_cached_witness:
  "\<exists>w1. search_clicked env_unreachable form_inception (initial_session, world0)
          = (Some Map.empty, initial_session, st_error ''Error: no provider reachable'' w1)
       \<and> aggregator_runs (st_error ''Error: no provider reachable'' w1) = 1
       \<and> aggregator_runs
            (snd (snd (search_clicked env_unreachable form_inception
                         (initial_session, st_error ''Error: no provider reachable'' w1)))) = 2"
proof -
  have filled: "required_fields_filled form_inception"
    by (simp add: required_fields_filled_def form_inception_def)
  have miss: "search_cache initial_session (cache_key form_inception) = None"
    by (simp add: initial_session_def)
  obtain w1 where run: "search_for env_unreachable form_inception world0
                          = (Inl (Exception ''no provider reachable''), w1)"
    using unreachable_search [of "in_title form_inception" "in_year form_inception"
        "in_media_type form_inception" "in_selected_langs form_inception"
        "in_selected_providers form_inception" None None
        "Some (build_provider_configs env_unreachable form_inception)" world0]
    by (cases "search_for env_unreachable form_inception world0")
       (simp add: search_for_def form_inception_def)
  from search_for_runs [of env_unreachable form_inception world0] run
  have "aggregator_runs w1 = 1"
    by (simp add: aggregator_runs_def world0_def)
  then have one: "aggregator_runs (st_error ''Error: no provider reachable'' w1) = 1"
    by (simp add: aggregator_runs_def st_error_def)
  from failed_search_is_not_cached [OF filled miss run filled refl] one
  show ?thesis
    by auto
qed

section \<open>The enhancement\<close>

text \<open>
  Claim C6. When \<open>OPENROUTER_API_KEY\<close> is unset or empty, \<open>enhance_subtitles\<close> fails: it
  returns \<open>None\<close>, having shown the missing-key message with \<open>st.error\<close>, which is how this
  program reports a missing credential. It makes no library call, so the enhancement
  capability is not invoked.
\<close>

theorem missing_credential_makes_no_call:
  assumes "OPENROUTER_API_KEY env = None \<or> OPENROUTER_API_KEY env = Some []"
  shows "fst (enhance_subtitles env sub_content w) = None
         \<and> calls (snd (enhance_subtitles env sub_content w)) = calls w
         \<and> st_errors (snd (enhance_subtitles env sub_content w))
             = st_errors w @ [missing_key_message]"
  using assms by (auto simp add: enhance_subtitles_def st_error_def)

text \<open>The theorem with the variable unset.\<close>

theorem missing_credential_makes_no_call_witness:
  "fst (enhance_subtitles (env_stub []) ''1'' world0) = None
   \<and> calls (snd (enhance_subtitles (env_stub []) ''1'' world0)) = []
   \<and> st_errors (snd (enhance_subtitles (env_stub []) ''1'' world0)) = [missing_key_message]"
proof -
  have "OPENROUTER_API_KEY (env_stub []) = None \<or> OPENROUTER_API_KEY (env_stub []) = Some []"
    by (simp add: env_stub_def)
  from missing_credential_makes_no_call [OF this, of "''1''" world0] show ?thesis
    by (simp add: world0_def)
qed

text \<open>
  Claim C9, as amended. When a key is configured and the enhancement capability raises an
  exception \<open>e\<close>, \<open>enhance_subtitles\<close> returns \<open>None\<close> to its caller, shows
  \<open>AI Enhancement Error:\<close> followed by \<open>str(e)\<close> with \<open>st.error\<close>, and has called the
  capability exactly once: the function has no retry of its own. The underlying message
  goes to the user interface, not to the caller.
\<close>

theorem capability_error_is_reported_once:
  assumes "OPENROUTER_API_KEY env = Some api_key"
    and "api_key \<noteq> []"
    and "chat_completions_create env w (chat_request_for env api_key sub_content) = Inl e"
  shows "fst (enhance_subtitles env sub_content w) = None
         \<and> calls (snd (enhance_subtitles env sub_content w))
             = calls w @ [Chat_completions_create (chat_request_for env api_key sub_content)]
         \<and> st_errors (snd (enhance_subtitles env sub_content w))
             = st_errors w @ [''AI Enhancement Error: '' @ str_exn e]"
  using assms by (simp add: enhance_subtitles_def Let_def st_error_def called_def)

text \<open>The theorem at a capability that answers with a rate-limit error.\<close>

theorem capability_error_is_reported_once_witness:
  "fst (enhance_subtitles env_rate_limited ''1'' world0) = None
   \<and> calls (snd (enhance_subtitles env_rate_limited ''1'' world0))
       = [Chat_completions_create (chat_request_for env_rate_limited ''sk-or-v1'' ''1'')]
   \<and> st_errors (snd (enhance_subtitles env_rate_limited ''1'' world0))
       = [''AI Enhancement Error: Error code: 429'']"
proof -
  have key: "OPENROUTER_API_KEY env_rate_limited = Some ''sk-or-v1''"
    by (simp add: env_rate_limited_def)
  have nonempty: "''sk-or-v1'' \<noteq> []"
    by simp
  have fails: "chat_completions_create env_rate_limited world0
                 (chat_request_for env_rate_limited ''sk-or-v1'' ''1'')
               = Inl (Exception ''Error code: 429'')"
    by (simp add: env_rate_limited_def)
  from capability_error_is_reported_once [OF key nonempty fails] show ?thesis
    by (simp add: world0_def)
qed

text \<open>
  Claim C9 as stated fails: what the caller gets carries neither a kind nor a message. A
  rate-limit error, an authentication error and a missing key all end in the same return
  value, \<open>None\<close>.
\<close>

theorem failure_value_counterexample:
  "fst (enhance_subtitles env_rate_limited ''1'' world0) = None
   \<and> fst (enhance_subtitles env_unauthorized ''1'' world0) = None
   \<and> fst (enhance_subtitles (env_stub []) ''1'' world0) = None
   \<and> chat_completions_create env_rate_limited world0
        (chat_request_for env_rate_limited ''sk-or-v1'' ''1'') = Inl (Exception ''Error code: 429'')
   \<and> chat_completions_create env_unauthorized world0
        (chat_request_for env_unauthorized ''sk-or-v1'' ''1'') = Inl (Exception ''Error code: 401'')
   \<and> OPENROUTER_API_KEY (env_stub []) = None"
  by (simp add: enhance_subtitles_def env_rate_limited_def env_unauthorized_def env_stub_def
        Let_def)

text \<open>
  When the capability hands back a plain string, the function returns that string
  stripped of its leading and trailing whitespace.
\<close>

lemma plain_text_is_stripped:
  assumes "OPENROUTER_API_KEY env = Some api_key"
    and "api_key \<noteq> []"
    and "chat_completions_create env w (chat_request_for env api_key sub_content)
           = Inr (PlainText text)"
  shows "fst (enhance_subtitles env sub_content w) = Some (strip text)"
  using assms by (simp add: enhance_subtitles_def Let_def)

text \<open>
  Claim C4 does not hold of the code for a completion object. The capability returns a
  \<open>ChatCompletion\<close> whose only choice has the text \<open>" 1 "\<close>; line 140 calls \<open>strip\<close> on the
  object itself, not on \<open>choices[0].message.content\<close> as the commented-out line 139 does,
  the \<open>AttributeError\<close> is caught, and the function returns \<open>None\<close> instead of \<open>"1"\<close>.
\<close>

theorem completion_object_is_not_stripped:
  "chat_completions_create env_completion world0
     (chat_request_for env_completion ''sk-or-v1'' ''1'') = Inr (ChatCompletion ['' 1 ''])
   \<and> fst (enhance_subtitles env_completion ''1'' world0) = None
   \<and> st_errors (snd (enhance_subtitles env_completion ''1'' world0))
       = [''AI Enhancement Error: '' @ str_exn no_attribute_strip]"
  by (simp add: enhance_subtitles_def env_completion_def env_stub_def Let_def st_error_def
        called_def world0_def)

end
